theory Spec2Isabelle
  imports Complex_Main
begin

section \<open>Python values and strings\<close>

text \<open>
  The bot keeps its content in JSON files and reads them with \<open>json.load\<close>. A decoded
  value is one of Python's \<open>None\<close>, \<open>bool\<close>, \<open>int\<close>, \<open>float\<close>, \<open>str\<close>, \<open>list\<close> and
  \<open>dict\<close>. A dict is kept as the list of its \<open>items()\<close>, in insertion order; the keys of
  a decoded object are strings. Strings are lists of characters with one \<open>char\<close> per code
  point, so text is covered up to code point 255. Floats are finite here.
\<close>

datatype json =
    JNull
  | JBool bool
  | JInt int
  | JFloat rat
  | JStr string
  | JList "json list"
  | JObj "(string \<times> json) list"

text \<open>The exceptions the modelled code can raise.\<close>

datatype py_error = AttributeError | TypeError | KeyError | ValueError | OSError

text \<open>Truth value of a decoded value, as \<open>if x:\<close> and \<open>not x\<close> test it.\<close>

fun truthy :: "json \<Rightarrow> bool" where
  "truthy JNull = False"
| "truthy (JBool b) = b"
| "truthy (JInt i) = (i \<noteq> 0)"
| "truthy (JFloat r) = (r \<noteq> 0)"
| "truthy (JStr s) = (s \<noteq> [])"
| "truthy (JList xs) = (xs \<noteq> [])"
| "truthy (JObj kvs) = (kvs \<noteq> [])"

text \<open>\<open>d.get(k)\<close>, \<open>k in d\<close> and \<open>d[k] = v\<close> on a dict held as its item list.\<close>

definition dict_get :: "('k \<times> 'v) list \<Rightarrow> 'k \<Rightarrow> 'v option" where
  "dict_get d k = map_of d k"

definition dict_has :: "('k \<times> 'v) list \<Rightarrow> 'k \<Rightarrow> bool" where
  "dict_has d k = (k \<in> set (map fst d))"

fun dict_set :: "('k \<times> 'v) list \<Rightarrow> 'k \<Rightarrow> 'v \<Rightarrow> ('k \<times> 'v) list" where
  "dict_set [] k v = [(k, v)]"
| "dict_set ((k', v') # d) k v = (if k' = k then (k, v) # d else (k', v') # dict_set d k v)"

text \<open>\<open>s.startswith(p)\<close>.\<close>

definition startswith :: "string \<Rightarrow> string \<Rightarrow> bool" where
  "startswith s p = (take (length p) s = p)"

text \<open>\<open>p in s\<close> for two strings: \<open>p\<close> occurs in \<open>s\<close> as a contiguous run.\<close>

fun str_contains :: "string \<Rightarrow> string \<Rightarrow> bool" where
  "str_contains [] p = (p = [])"
| "str_contains (c # cs) p = (startswith (c # cs) p \<or> str_contains cs p)"

text \<open>
  \<open>s.replace(old, new)\<close>: every occurrence of \<open>old\<close>, found left to right without overlap,
  becomes \<open>new\<close>. With an empty \<open>old\<close> Python puts \<open>new\<close> before every character and at
  the end.
\<close>

function replace_ne :: "string \<Rightarrow> string \<Rightarrow> string \<Rightarrow> string" where
  "replace_ne old new s =
     (if s = [] then []
      else if old \<noteq> [] \<and> startswith s old
           then new @ replace_ne old new (drop (length old) s)
           else hd s # replace_ne old new (tl s))"
  by pat_completeness auto
termination
  by (relation "measure (\<lambda>(old, new, s). length s)") auto

definition py_replace :: "string \<Rightarrow> string \<Rightarrow> string \<Rightarrow> string" where
  "py_replace s old new =
     (if old = [] then new @ concat (map (\<lambda>c. c # new) s) else replace_ne old new s)"

text \<open>\<open>s.rstrip(chars)\<close>: drop every trailing character that is in \<open>chars\<close>.\<close>

definition rstrip_chars :: "string \<Rightarrow> string \<Rightarrow> string" where
  "rstrip_chars s chars = rev (dropWhile (\<lambda>c. c \<in> set chars) (rev s))"

text \<open>White space as \<open>str.strip()\<close>, \<open>str.rstrip()\<close> and \<open>int()\<close> see it, below code point 256.\<close>

definition is_space :: "char \<Rightarrow> bool" where
  "is_space c =
     (let n = (of_char c :: nat)
      in (9 \<le> n \<and> n \<le> 13) \<or> (28 \<le> n \<and> n \<le> 32) \<or> n = 133 \<or> n = 160)"

definition rstrip :: "string \<Rightarrow> string" where
  "rstrip s = rev (dropWhile is_space (rev s))"

definition strip :: "string \<Rightarrow> string" where
  "strip s = rstrip (dropWhile is_space s)"

text \<open>
  Letter case. Only the ASCII letters are treated as cased: the keys, categories and
  file names of this bot are ASCII identifiers.
\<close>

definition is_lower :: "char \<Rightarrow> bool" where
  "is_lower c = (let n = (of_char c :: nat) in 97 \<le> n \<and> n \<le> 122)"

definition is_upper :: "char \<Rightarrow> bool" where
  "is_upper c = (let n = (of_char c :: nat) in 65 \<le> n \<and> n \<le> 90)"

definition to_lower :: "char \<Rightarrow> char" where
  "to_lower c = (if is_upper c then char_of ((of_char c :: nat) + 32) else c)"

definition to_upper :: "char \<Rightarrow> char" where
  "to_upper c = (if is_lower c then char_of ((of_char c :: nat) - 32) else c)"

definition lower :: "string \<Rightarrow> string" where
  "lower s = map to_lower s"

text \<open>
  \<open>s.title()\<close>: a cased character that follows an uncased one is put in upper case,
  one that follows a cased character in lower case.
\<close>

fun title_from :: "bool \<Rightarrow> string \<Rightarrow> string" where
  "title_from prev [] = []"
| "title_from prev (c # cs) =
     (if is_lower c then (if prev then c else to_upper c) # title_from True cs
      else if is_upper c then (if prev then to_lower c else c) # title_from True cs
      else c # title_from False cs)"

definition title :: "string \<Rightarrow> string" where
  "title s = title_from False s"

section \<open>DataManager (data/data\_manager.py)\<close>

text \<open>
  What lies at \<open>data_dir/<category>.json\<close>: nothing, a file that cannot be opened or
  decoded (every exception is caught in \<open>load_data\<close>), or a file that decodes to a value.
\<close>

datatype data_file = Missing | Corrupt | Content json

record data_manager =
  data_files :: "string \<Rightarrow> data_file"
  dm_cache :: "(string \<times> json) list"

text \<open>
  \<open>load_data\<close>: the cached value if there is one; otherwise the decoded file, which is
  then cached; \<open>{}\<close>, uncached, when the file is missing or does not decode.
\<close>

definition load_data :: "data_manager \<Rightarrow> string \<Rightarrow> json \<times> data_manager" where
  "load_data dm category =
     (case dict_get (dm_cache dm) category of
        Some d \<Rightarrow> (d, dm)
      | None \<Rightarrow>
          (case data_files dm category of
             Missing \<Rightarrow> (JObj [], dm)
           | Corrupt \<Rightarrow> (JObj [], dm)
           | Content d \<Rightarrow> (d, dm\<lparr>dm_cache := dict_set (dm_cache dm) category d\<rparr>)))"


text \<open>
  \<open>faction in data\<close> and \<open>data[faction]\<close> for a string \<open>faction\<close>: a key test and a lookup
  on a dict; an element test on a list and a substring test on a string, whose indexing
  by a string then raises; numbers, booleans and \<open>None\<close> are not iterable.
\<close>

definition pick_faction :: "json \<Rightarrow> string \<Rightarrow> py_error + json" where
  "pick_faction d faction =
     (case d of
        JObj kvs \<Rightarrow> (case dict_get kvs faction of Some v \<Rightarrow> Inr v | None \<Rightarrow> Inr d)
      | JList xs \<Rightarrow> (if JStr faction \<in> set xs then Inl TypeError else Inr d)
      | JStr s \<Rightarrow> (if str_contains s faction then Inl TypeError else Inr d)
      | _ \<Rightarrow> Inl TypeError)"

text \<open>
  \<open>get_items\<close>: the partition of a faction that is given, not empty and present in the
  data; the whole data otherwise.
\<close>

definition get_items ::
  "data_manager \<Rightarrow> string \<Rightarrow> string option \<Rightarrow> (py_error + json) \<times> data_manager" where
  "get_items dm category faction =
     (let (d, dm') = load_data dm category
      in (case faction of
            None \<Rightarrow> Inr d
          | Some f \<Rightarrow> (if f = [] then Inr d else pick_faction d f), dm'))"

text \<open>\<open>get_item\<close>: \<open>items.get(item_key, {})\<close>; only a dict has \<open>get\<close>.\<close>

definition get_item ::
  "data_manager \<Rightarrow> string \<Rightarrow> string \<Rightarrow> string option \<Rightarrow> (py_error + json) \<times> data_manager" where
  "get_item dm category item_key faction =
     (let (r, dm') = get_items dm category faction
      in (case r of
            Inl e \<Rightarrow> Inl e
          | Inr (JObj kvs) \<Rightarrow>
              (case dict_get kvs item_key of Some v \<Rightarrow> Inr v | None \<Rightarrow> Inr (JObj []))
          | Inr _ \<Rightarrow> Inl AttributeError, dm'))"

section \<open>Settings: the asset store (config/settings.py)\<close>

text \<open>
  The three settings the modelled code reads: \<open>USE_EXTERNAL_ASSETS\<close>,
  \<open>EXTERNAL_ASSET_BASE_URL\<close> and \<open>DEBUG\<close>.
\<close>

record settings =
  use_external_assets :: bool
  external_asset_base_url :: string
  debug :: bool

text \<open>
  The assets directory as the code observes it. \<open>dir_node name\<close> is what the path
  \<open>ASSETS_DIR / name\<close> leads to: nothing, something that is not a regular file, or a
  regular file with its size in bytes and whether \<open>open\<close> succeeds on it.
  \<open>dir_listing\<close> holds the names \<open>ASSETS_DIR.iterdir()\<close> yields, or \<open>None\<close> when
  iterating raises.
\<close>

datatype node = NoEntry | NotAFile | RegularFile nat bool

record assets_dir =
  dir_exists :: bool
  dir_listing :: "string list option"
  dir_node :: "string \<Rightarrow> node"

text \<open>A path \<open>ASSETS_DIR / name\<close>.\<close>

datatype path = AssetPath string

fun is_file :: "assets_dir \<Rightarrow> path \<Rightarrow> bool" where
  "is_file fs (AssetPath name) = (case dir_node fs name of RegularFile sz ok \<Rightarrow> True | _ \<Rightarrow> False)"

fun path_exists :: "assets_dir \<Rightarrow> path \<Rightarrow> bool" where
  "path_exists fs (AssetPath name) = (dir_node fs name \<noteq> NoEntry)"

text \<open>
  \<open>Path.suffix\<close> of a file name: the part from the last dot on, unless that dot is
  the first or the last character of the name.
\<close>

definition suffix :: "string \<Rightarrow> string" where
  "suffix name =
     (let ext = rev (takeWhile (\<lambda>c. c \<noteq> CHR ''.'') (rev name));
          i = length name - length ext - 1
      in if CHR ''.'' \<in> set name \<and> 0 < i \<and> ext \<noteq> [] then drop i name else [])"

definition supported_extensions :: "string list" where
  "supported_extensions = [''.png'', ''.jpg'', ''.jpeg'', ''.gif'', ''.webp'']"

definition is_supported :: "string \<Rightarrow> bool" where
  "is_supported name = (lower (suffix name) \<in> set supported_extensions)"

text \<open>The class attributes \<open>_asset_cache\<close> and \<open>_cache_initialized\<close>.\<close>

record asset_state =
  asset_cache :: "(string \<times> path) list"
  cache_initialized :: bool

text \<open>One round of the loop of \<open>initialize_asset_cache\<close>.\<close>

definition cache_entry :: "assets_dir \<Rightarrow> (string \<times> path) list \<Rightarrow> string \<Rightarrow> (string \<times> path) list" where
  "cache_entry fs c name =
     (if is_file fs (AssetPath name) \<and> is_supported name
      then dict_set c name (AssetPath name) else c)"

definition initialize_asset_cache :: "assets_dir \<Rightarrow> asset_state \<Rightarrow> asset_state" where
  "initialize_asset_cache fs st =
     (if cache_initialized st then st
      else if \<not> dir_exists fs then st\<lparr>cache_initialized := True\<rparr>
      else (case dir_listing fs of
              None \<Rightarrow> st\<lparr>cache_initialized := True\<rparr>
            | Some names \<Rightarrow>
                st\<lparr>asset_cache := foldl (cache_entry fs) (asset_cache st) names,
                   cache_initialized := True\<rparr>))"

definition refresh_asset_cache :: "assets_dir \<Rightarrow> asset_state \<Rightarrow> asset_state" where
  "refresh_asset_cache fs st =
     initialize_asset_cache fs (st\<lparr>cache_initialized := False, asset_cache := []\<rparr>)"

definition get_asset_url :: "settings \<Rightarrow> string \<Rightarrow> string" where
  "get_asset_url cfg filename =
     (if use_external_assets cfg \<and> external_asset_base_url cfg \<noteq> []
      then rstrip_chars (external_asset_base_url cfg) ''/'' @ ''/'' @ filename
      else ''attachment://'' @ filename)"

text \<open>
  A \<open>discord.File\<close>: the name it is sent under and the size of the file opened for it.
  \<open>discord.File(asset_path, filename=filename)\<close> opens the path; the code catches every
  exception of that and returns \<open>None\<close>.
\<close>

record discord_file =
  file_name :: string
  file_size :: nat

fun open_file :: "assets_dir \<Rightarrow> path \<Rightarrow> string \<Rightarrow> discord_file option" where
  "open_file fs (AssetPath name) filename =
     (case dir_node fs name of
        RegularFile sz ok \<Rightarrow> (if ok then Some \<lparr>file_name = filename, file_size = sz\<rparr> else None)
      | _ \<Rightarrow> None)"

text \<open>
  \<open>get_asset_file\<close>. On a cache miss the path \<open>ASSETS_DIR / filename\<close> is probed, and a
  regular file found there enters the cache before it is opened. The branch that logs
  a missing file under \<open>DEBUG\<close> changes nothing and is left out.
\<close>

definition get_asset_file ::
  "settings \<Rightarrow> assets_dir \<Rightarrow> asset_state \<Rightarrow> string \<Rightarrow> discord_file option \<times> asset_state" where
  "get_asset_file cfg fs st filename =
     (if use_external_assets cfg then (None, st)
      else
        (let st1 = initialize_asset_cache fs st
         in (case dict_get (asset_cache st1) filename of
               Some asset_path \<Rightarrow> (open_file fs asset_path filename, st1)
             | None \<Rightarrow>
                 (if path_exists fs (AssetPath filename) \<and> is_file fs (AssetPath filename)
                  then (open_file fs (AssetPath filename) filename,
                        st1\<lparr>asset_cache := dict_set (asset_cache st1) filename (AssetPath filename)\<rparr>)
                  else (None, st1)))))"

text \<open>
  \<open>debug_asset_loading\<close> only logs, but it initialises the cache first, and
  \<open>asset_path.stat()\<close> raises when a cached path leads nowhere.
\<close>

definition debug_asset_loading ::
  "settings \<Rightarrow> assets_dir \<Rightarrow> asset_state \<Rightarrow> string \<Rightarrow> (py_error + unit) \<times> asset_state" where
  "debug_asset_loading cfg fs st filename =
     (if \<not> debug cfg then (Inr (), st)
      else
        (let st1 = initialize_asset_cache fs st
         in (case dict_get (asset_cache st1) filename of
               Some asset_path \<Rightarrow> (if path_exists fs asset_path then Inr () else Inl OSError, st1)
             | None \<Rightarrow> (Inr (), st1))))"

section \<open>Rendering an item (cogs/base\_selector.py)\<close>

text \<open>
  \<open>int(s, 16)\<close> on a string: white space around the number, a sign, the prefix \<open>0x\<close> or
  \<open>0X\<close>, then hexadecimal digits that single underscores may separate (one may also follow
  the prefix). \<open>None\<close> stands for \<open>ValueError\<close>.
\<close>

definition hex_digit :: "char \<Rightarrow> nat option" where
  "hex_digit c =
     (let n = (of_char c :: nat)
      in if 48 \<le> n \<and> n \<le> 57 then Some (n - 48)
         else if 97 \<le> n \<and> n \<le> 102 then Some (n - 87)
         else if 65 \<le> n \<and> n \<le> 70 then Some (n - 55)
         else None)"

fun hex_body :: "nat \<Rightarrow> string \<Rightarrow> nat option" where
  "hex_body acc [] = Some acc"
| "hex_body acc (c # cs) =
     (if c = CHR ''_''
      then (case cs of
              [] \<Rightarrow> None
            | d # ds \<Rightarrow> (case hex_digit d of None \<Rightarrow> None | Some v \<Rightarrow> hex_body (16 * acc + v) ds))
      else (case hex_digit c of None \<Rightarrow> None | Some v \<Rightarrow> hex_body (16 * acc + v) cs))"

definition hex_number :: "string \<Rightarrow> nat option" where
  "hex_number s =
     (case s of
        [] \<Rightarrow> None
      | c # cs \<Rightarrow> (case hex_digit c of None \<Rightarrow> None | Some v \<Rightarrow> hex_body v cs))"

definition skip_prefix :: "string \<Rightarrow> string" where
  "skip_prefix s =
     (if startswith s ''0x'' \<or> startswith s ''0X''
      then (let r = drop 2 s in if startswith r ''_'' then drop 1 r else r)
      else s)"

definition int16 :: "string \<Rightarrow> int option" where
  "int16 s =
     (let t = strip s;
          (sign, u) = (if startswith t ''+'' then (1, drop 1 t)
                       else if startswith t ''-'' then (- 1, drop 1 t)
                       else (1, t))
      in map_option (\<lambda>n. sign * int n) (hex_number (skip_prefix u)))"

text \<open>
  A \<open>discord.Embed\<close>, as the arguments the code hands to \<open>discord.Embed\<close>, \<open>add_field\<close>
  and \<open>set_thumbnail\<close>.
\<close>

record embed_field =
  fld_name :: string
  fld_value :: json
  fld_inline :: json

record embed =
  embed_title :: json
  embed_color :: int
  embed_fields :: "embed_field list"
  embed_thumbnail :: "string option"

definition default_color :: int where
  "default_color = 0x5865F2"

text \<open>
  \<open>str(v)\<close>: a string is itself; for every other value the text Python prints is a
  parameter \<open>repr\<close> of the model.
\<close>

definition str_of :: "(json \<Rightarrow> string) \<Rightarrow> json \<Rightarrow> string" where
  "str_of repr v = (case v of JStr s \<Rightarrow> s | _ \<Rightarrow> repr v)"

text \<open>
  The colour of the embed: \<open>int(item_data.get('color', '0x5865F2'), 16)\<close> under
  \<open>except ValueError\<close>. \<open>int\<close> with a base raises \<open>TypeError\<close> on anything but a
  string, and that exception is not caught.
\<close>

definition embed_colour :: "(string \<times> json) list \<Rightarrow> py_error + int" where
  "embed_colour item_data =
     (case (case dict_get item_data ''color'' of Some v \<Rightarrow> v | None \<Rightarrow> JStr ''0x5865F2'') of
        JStr s \<Rightarrow> (case int16 s of Some n \<Rightarrow> Inr n | None \<Rightarrow> Inr default_color)
      | _ \<Rightarrow> Inl TypeError)"

text \<open>
  One round of the loop over the attributes: an attribute whose key starts with
  \<open>field_\<close> becomes a field while fewer than 25 fields have been added. Nothing in the
  body of the loop can raise.
\<close>

definition add_field ::
  "(json \<Rightarrow> string) \<Rightarrow> (string \<times> json) list \<Rightarrow> embed_field list \<Rightarrow> string \<times> json
     \<Rightarrow> embed_field list" where
  "add_field repr item_data acc kv =
     (case kv of (field_key, field_value) \<Rightarrow>
        if startswith field_key ''field_'' \<and> length acc < 25
        then acc @
          [\<lparr>fld_name = title (py_replace (py_replace field_key ''field_'' []) ''_'' '' ''),
            fld_value =
              (if length (str_of repr field_value) > 1024
               then JStr (take 1021 (str_of repr field_value) @ ''...'')
               else field_value),
            fld_inline =
              (case dict_get item_data (field_key @ ''_inline'') of
                 Some v \<Rightarrow> v | None \<Rightarrow> JBool False)\<rparr>]
        else acc)"

text \<open>
  Removing the marker \<open>attachment://\<close> from a thumbnail reference, as \<open>create_embed\<close>
  and \<open>get_files\<close> both do:
  \<open>if t.startswith('attachment://'): t = t.replace('attachment://', '')\<close>.
\<close>

definition strip_attachment :: "string \<Rightarrow> string" where
  "strip_attachment t =
     (if startswith t ''attachment://'' then py_replace t ''attachment://'' [] else t)"

definition embed_thumb ::
  "settings \<Rightarrow> (string \<times> json) list \<Rightarrow> bool \<Rightarrow> py_error + string option" where
  "embed_thumb cfg item_data include_thumbnails =
     (if include_thumbnails \<and> dict_has item_data ''thumbnail''
      then (case dict_get item_data ''thumbnail'' of
              Some (JStr t) \<Rightarrow>
                (if use_external_assets cfg
                 then Inr (Some (get_asset_url cfg (strip_attachment t)))
                 else Inr (Some (''attachment://'' @ strip_attachment t)))
            | _ \<Rightarrow> Inl AttributeError)
      else Inr None)"

definition create_embed ::
  "(json \<Rightarrow> string) \<Rightarrow> settings \<Rightarrow> (string \<times> json) list \<Rightarrow> string \<Rightarrow> bool
     \<Rightarrow> py_error + embed" where
  "create_embed repr cfg item_data key include_thumbnails =
     (case embed_colour item_data of
        Inl e \<Rightarrow> Inl e
      | Inr colour \<Rightarrow>
          (case embed_thumb cfg item_data include_thumbnails of
             Inl e \<Rightarrow> Inl e
           | Inr thumb \<Rightarrow>
               Inr \<lparr>embed_title =
                      (case dict_get item_data ''title'' of
                         Some v \<Rightarrow> v | None \<Rightarrow> JStr (title key)),
                    embed_color = colour,
                    embed_fields = foldl (add_field repr item_data) [] item_data,
                    embed_thumbnail = thumb\<rparr>))"

section \<open>Attachments of an item (cogs/base\_selector.py)\<close>

text \<open>What \<open>for x in v\<close> runs over.\<close>

definition py_iter :: "json \<Rightarrow> py_error + json list" where
  "py_iter v =
     (case v of
        JList xs \<Rightarrow> Inr xs
      | JStr s \<Rightarrow> Inr (map (\<lambda>c. JStr [c]) s)
      | JObj kvs \<Rightarrow> Inr (map (\<lambda>kv. JStr (fst kv)) kvs)
      | _ \<Rightarrow> Inl TypeError)"

text \<open>
  The loop over \<open>additional_images\<close>. An image that is not a string makes the cache
  lookup or the path join of \<open>get_asset_file\<close> (or of \<open>debug_asset_loading\<close>) raise
  \<open>TypeError\<close>, after the cache has been initialised.
\<close>

fun add_images ::
  "settings \<Rightarrow> assets_dir \<Rightarrow> json list \<Rightarrow> discord_file list \<Rightarrow> asset_state
     \<Rightarrow> (py_error + discord_file list) \<times> asset_state" where
  "add_images cfg fs [] files st = (Inr files, st)"
| "add_images cfg fs (img # rest) files st =
     (case img of
        JStr name \<Rightarrow>
          (case debug_asset_loading cfg fs st name of
             (Inl e, st1) \<Rightarrow> (Inl e, st1)
           | (Inr u, st1) \<Rightarrow>
               (case get_asset_file cfg fs st1 name of
                  (Some file_obj, st2) \<Rightarrow> add_images cfg fs rest (files @ [file_obj]) st2
                | (None, st2) \<Rightarrow> add_images cfg fs rest files st2))
      | _ \<Rightarrow> (Inl TypeError, initialize_asset_cache fs st))"

definition size_limit :: nat where
  "size_limit = 25 * 1024 * 1024"

text \<open>
  The end of \<open>get_files\<close>: the sizes are summed, and above the limit a warning is logged
  and the list cut to \<open>files[:3]\<close>. The flag records that the warning was logged.
\<close>

definition limit_files :: "discord_file list \<Rightarrow> discord_file list \<times> bool" where
  "limit_files files =
     (if sum_list (map file_size files) > size_limit then (take 3 files, True)
      else (files, False))"

definition thumbnail_files ::
  "settings \<Rightarrow> assets_dir \<Rightarrow> (string \<times> json) list \<Rightarrow> asset_state
     \<Rightarrow> (py_error + discord_file list) \<times> asset_state" where
  "thumbnail_files cfg fs item_data st =
     (if dict_has item_data ''thumbnail''
      then (case dict_get item_data ''thumbnail'' of
              Some (JStr t) \<Rightarrow>
                (case debug_asset_loading cfg fs st (strip_attachment t) of
                   (Inl e, st1) \<Rightarrow> (Inl e, st1)
                 | (Inr u, st1) \<Rightarrow>
                     (case get_asset_file cfg fs st1 (strip_attachment t) of
                        (Some file_obj, st2) \<Rightarrow> (Inr [file_obj], st2)
                      | (None, st2) \<Rightarrow> (Inr [], st2)))
            | _ \<Rightarrow> (Inl AttributeError, st))
      else (Inr [], st))"

definition get_files ::
  "settings \<Rightarrow> assets_dir \<Rightarrow> (string \<times> json) list \<Rightarrow> string \<Rightarrow> asset_state
     \<Rightarrow> (py_error + discord_file list \<times> bool) \<times> asset_state" where
  "get_files cfg fs item_data key st =
     (if use_external_assets cfg then (Inr ([], False), st)
      else
        (case thumbnail_files cfg fs item_data st of
           (Inl e, st1) \<Rightarrow> (Inl e, st1)
         | (Inr files, st1) \<Rightarrow>
             (let additional_images =
                    (case dict_get item_data ''additional_images'' of
                       Some v \<Rightarrow> v | None \<Rightarrow> JList [])
              in if truthy additional_images
                 then (case py_iter additional_images of
                         Inl e \<Rightarrow> (Inl e, st1)
                       | Inr images \<Rightarrow>
                           (case add_images cfg fs images files st1 of
                              (Inl e, st2) \<Rightarrow> (Inl e, st2)
                            | (Inr files2, st2) \<Rightarrow> (Inr (limit_files files2), st2)))
                 else (Inr (limit_files files), st1))))"

section \<open>Selection menus (cogs/base\_selector.py, cogs/maps\_command.py)\<close>

text \<open>
  A \<open>discord.SelectOption\<close> as the arguments it is built from. The emojis the code
  writes as literals are constructors; a string read from the data is \<open>EmojiText\<close>.
  A menu is the list of options handed to \<open>discord.ui.Select\<close>; its placeholder text and
  the fixed \<open>min_values\<close> and \<open>max_values\<close> are not part of the model.
\<close>

datatype emoji = FlagUS | FlagDE | FlagRU | FlagGB | WorldMap | EmojiText string

record select_option =
  opt_label :: json
  opt_value :: string
  opt_description :: "json option"
  opt_emoji :: "emoji option"

text \<open>
  \<open>v[:100]\<close>: strings and lists can be sliced; a dict rejects the slice as a key,
  everything else is not subscriptable.
\<close>

definition slice100 :: "json \<Rightarrow> py_error + json" where
  "slice100 v =
     (case v of
        JStr s \<Rightarrow> Inr (JStr (take 100 s))
      | JList xs \<Rightarrow> Inr (JList (take 100 xs))
      | _ \<Rightarrow> Inl TypeError)"

text \<open>
  The emoji of a \<open>SelectOption\<close>: \<open>None\<close> or a string; discord.py raises \<open>TypeError\<close>
  on anything else.
\<close>

definition option_emoji :: "json \<Rightarrow> py_error + emoji option" where
  "option_emoji v =
     (case v of
        JNull \<Rightarrow> Inr None
      | JStr s \<Rightarrow> Inr (Some (EmojiText s))
      | _ \<Rightarrow> Inl TypeError)"

text \<open>The body of the \<open>try\<close> in \<open>BaseSelectorDropdown.__init__\<close>, for one entry.\<close>

definition item_option :: "string \<Rightarrow> json \<Rightarrow> py_error + select_option" where
  "item_option key item =
     (case item of
        JObj kvs \<Rightarrow>
          (case slice100 (case dict_get kvs ''short_description'' of
                            Some v \<Rightarrow> v | None \<Rightarrow> JStr []) of
             Inl e \<Rightarrow> Inl e
           | Inr description \<Rightarrow>
               (case option_emoji (case dict_get kvs ''emoji'' of
                                     Some v \<Rightarrow> v | None \<Rightarrow> JNull) of
                  Inl e \<Rightarrow> Inl e
                | Inr em \<Rightarrow>
                    Inr \<lparr>opt_label =
                           (case dict_get kvs ''display_name'' of
                              Some v \<Rightarrow> v | None \<Rightarrow> JStr (title key)),
                         opt_value = key,
                         opt_description = Some description,
                         opt_emoji = em\<rparr>))
      | _ \<Rightarrow> Inl AttributeError)"

text \<open>The option added under \<open>except Exception\<close>.\<close>

definition fallback_option :: "string \<Rightarrow> select_option" where
  "fallback_option key =
     \<lparr>opt_label = JStr (title key), opt_value = key,
      opt_description = Some (JStr ''Item details unavailable''), opt_emoji = None\<rparr>"

definition make_option :: "string \<times> json \<Rightarrow> select_option" where
  "make_option kv =
     (case item_option (fst kv) (snd kv) of
        Inr opt \<Rightarrow> opt
      | Inl e \<Rightarrow> fallback_option (fst kv))"

definition no_items_option :: select_option where
  "no_items_option =
     \<lparr>opt_label = JStr ''No items available'', opt_value = ''none'',
      opt_description = Some (JStr ''No content found for this category''), opt_emoji = None\<rparr>"

text \<open>
  \<open>BaseSelectorDropdown.__init__\<close>: the options of the item menu. Items that are not
  given are fetched with \<open>get_items\<close>; only a dict has \<open>items()\<close>.
\<close>

definition BaseSelectorDropdown ::
  "data_manager \<Rightarrow> string \<Rightarrow> string option \<Rightarrow> json option
     \<Rightarrow> (py_error + select_option list) \<times> data_manager" where
  "BaseSelectorDropdown dm category faction items =
     (case (case items of None \<Rightarrow> get_items dm category faction | Some i \<Rightarrow> (Inr i, dm)) of
        (Inl e, dm') \<Rightarrow> (Inl e, dm')
      | (Inr i, dm') \<Rightarrow>
          (if \<not> truthy i then (Inr (take 25 [no_items_option]), dm')
           else (case i of
                   JObj kvs \<Rightarrow> (Inr (take 25 (map make_option kvs)), dm')
                 | _ \<Rightarrow> (Inl AttributeError, dm'))))"

text \<open>
  \<open>BaseSelectorView.__init__\<close> fetches items that are not given and adds the one menu.
\<close>

definition BaseSelectorView ::
  "data_manager \<Rightarrow> string \<Rightarrow> string option \<Rightarrow> json option
     \<Rightarrow> (py_error + select_option list) \<times> data_manager" where
  "BaseSelectorView dm category faction items =
     (case (case items of None \<Rightarrow> get_items dm category faction | Some i \<Rightarrow> (Inr i, dm)) of
        (Inl e, dm') \<Rightarrow> (Inl e, dm')
      | (Inr i, dm') \<Rightarrow> BaseSelectorDropdown dm' category faction (Some i))"

text \<open>\<open>FactionSelectorDropdown.__init__\<close>: one option for each faction.\<close>

definition faction_option :: "string \<Rightarrow> select_option" where
  "faction_option faction =
     (let f = lower faction;
          config =
            (if f = ''us'' then (''United States'', Some FlagUS)
             else if f = ''german'' then (''Germany'', Some FlagDE)
             else if f = ''soviet'' then (''Soviet Union'', Some FlagRU)
             else if f = ''british'' then (''United Kingdom'', Some FlagGB)
             else if f = ''ussr'' then (''Soviet Union'', Some FlagRU)
             else (title faction, None))
      in \<lparr>opt_label = JStr (fst config), opt_value = faction,
          opt_description = None, opt_emoji = snd config\<rparr>)"

definition FactionSelectorDropdown :: "string \<Rightarrow> string list \<Rightarrow> select_option list" where
  "FactionSelectorDropdown category factions = map faction_option factions"

text \<open>
  \<open>PersistentMapDropdown.__init__\<close>. The description of a map is its \<open>terrain\<close>; a text
  of more than 94 characters is cut at 94, or at the last of \<open>' '\<close>, \<open>'.'\<close>, \<open>','\<close>, \<open>';'\<close>
  found at an index from 94 down to \<open>max(60, len - 20) + 1\<close>.
\<close>

definition truncate_at :: "string \<Rightarrow> nat" where
  "truncate_at d =
     (case find (\<lambda>i. d ! i \<in> set '' .,;'') (rev [Suc (max 60 (length d - 20)) ..< 95]) of
        Some i \<Rightarrow> i
      | None \<Rightarrow> 94)"

definition default_description :: string where
  "default_description = ''Tactical map information available''"

text \<open>
  A \<open>terrain\<close> that is not a string: a list of more than 94 elements has no \<open>rstrip\<close>,
  a shorter one is kept; a dict is indexed by a number or a slice, which raises
  (\<open>TypeError\<close> for the slice before Python 3.12, \<open>KeyError\<close> from then on); \<open>len\<close> of
  anything else raises.
\<close>

definition map_description :: "json \<Rightarrow> py_error + json" where
  "map_description v =
     (case v of
        JStr d \<Rightarrow>
          Inr (JStr (take 100
            (if length d > 94 then rstrip (take (truncate_at d) d) @ ''...''
             else if d = [] then default_description else d)))
      | JList xs \<Rightarrow>
          (if length xs > 94 then Inl AttributeError
           else if xs = [] then Inr (JStr (take 100 default_description))
           else Inr (JList (take 100 xs)))
      | JObj kvs \<Rightarrow>
          (if length kvs > 94 then (if length kvs < 114 then Inl KeyError else Inl TypeError)
           else if kvs = [] then Inr (JStr (take 100 default_description))
           else Inl TypeError)
      | _ \<Rightarrow> Inl TypeError)"

definition get_display_name :: "string \<Rightarrow> string" where
  "get_display_name map_key =
     (let k = lower map_key
      in if k = ''sme'' then ''Sainte-M'' @ [CHR 0xE8] @ ''re-'' @ [CHR 0xC9] @ ''glise''
         else if k = ''phl'' then ''Purple Heart Lane''
         else if k = ''smdmv2'' then ''Saint-Marie-du-Mont V2''
         else if k = ''elalamein'' then ''El Alamein''
         else py_replace (title map_key) ''_'' '' '')"

definition map_menu_option :: "string \<Rightarrow> json \<Rightarrow> py_error + select_option" where
  "map_menu_option map_key map_info =
     (case map_info of
        JObj info \<Rightarrow>
          (case map_description (case dict_get info ''terrain'' of
                                   Some v \<Rightarrow> v | None \<Rightarrow> JStr []) of
             Inl e \<Rightarrow> Inl e
           | Inr description \<Rightarrow>
               Inr \<lparr>opt_label = JStr (get_display_name map_key), opt_value = map_key,
                    opt_description = Some description, opt_emoji = Some WorldMap\<rparr>)
      | _ \<Rightarrow> Inl AttributeError)"

text \<open>The loop over the maps stops at the first entry that raises.\<close>

fun map_menu_options :: "(string \<times> json) list \<Rightarrow> py_error + select_option list" where
  "map_menu_options [] = Inr []"
| "map_menu_options ((map_key, map_info) # rest) =
     (case map_menu_option map_key map_info of
        Inl e \<Rightarrow> Inl e
      | Inr opt \<Rightarrow> (case map_menu_options rest of Inl e \<Rightarrow> Inl e | Inr opts \<Rightarrow> Inr (opt # opts)))"

definition no_maps_option :: select_option where
  "no_maps_option =
     \<lparr>opt_label = JStr ''No maps available'', opt_value = ''none'',
      opt_description = Some (JStr ''No map data found''), opt_emoji = None\<rparr>"

definition PersistentMapDropdown ::
  "data_manager \<Rightarrow> (py_error + select_option list) \<times> data_manager" where
  "PersistentMapDropdown dm =
     (let (maps_data, dm') = load_data dm ''maps''
      in if \<not> truthy maps_data then (Inr [no_maps_option], dm')
         else (case maps_data of
                 JObj kvs \<Rightarrow> (map_menu_options kvs, dm')
               | _ \<Rightarrow> (Inl AttributeError, dm')))"

section \<open>The selection flow (cogs/base\_selector.py)\<close>




text \<open>
  \<open>FactionSelectorDropdown.callback\<close>: the items of the chosen faction, then the item
  menu. Nothing is caught here.
\<close>

datatype faction_response = NoItemsMessage | FactionItems "select_option list"

definition faction_callback ::
  "data_manager \<Rightarrow> string \<Rightarrow> string \<Rightarrow> (py_error + faction_response) \<times> data_manager" where
  "faction_callback dm category selected_faction =
     (case get_items dm category (Some selected_faction) of
        (Inl e, dm1) \<Rightarrow> (Inl e, dm1)
      | (Inr items, dm1) \<Rightarrow>
          (if \<not> truthy items then (Inr NoItemsMessage, dm1)
           else (case BaseSelectorView dm1 category (Some selected_faction) (Some items) of
                   (Inl e, dm2) \<Rightarrow> (Inl e, dm2)
                 | (Inr opts, dm2) \<Rightarrow> (Inr (FactionItems opts), dm2))))"

text \<open>
  \<open>BaseSelectorDropdown.callback\<close>. The answer is one of: no content, the item was not
  found, the rendered item with its files, the rendered item without attachments (sent
  when Discord rejects the files as too large, which \<open>too_large\<close> decides), or the error
  message sent when rendering raised.
\<close>

datatype selection_response =
    NoContentMessage
  | NotFoundMessage string
  | ItemResponse embed "discord_file list"
  | TextOnlyResponse embed
  | ErrorMessage string

definition render_item ::
  "(json \<Rightarrow> string) \<Rightarrow> (discord_file list \<Rightarrow> bool) \<Rightarrow> settings \<Rightarrow> assets_dir
     \<Rightarrow> json \<Rightarrow> string \<Rightarrow> asset_state \<Rightarrow> selection_response \<times> asset_state" where
  "render_item repr too_large cfg fs item_data selected_key st =
     (case item_data of
        JObj kvs \<Rightarrow>
          (case create_embed repr cfg kvs selected_key True of
             Inl e \<Rightarrow> (ErrorMessage selected_key, st)
           | Inr emb \<Rightarrow>
               (case get_files cfg fs kvs selected_key st of
                  (Inl e, st1) \<Rightarrow> (ErrorMessage selected_key, st1)
                | (Inr (files, warned), st1) \<Rightarrow>
                    (if too_large files
                     then (case create_embed repr cfg kvs selected_key False of
                             Inl e \<Rightarrow> (ErrorMessage selected_key, st1)
                           | Inr emb2 \<Rightarrow> (TextOnlyResponse emb2, st1))
                     else (ItemResponse emb files, st1))))
      | _ \<Rightarrow> (ErrorMessage selected_key, st))"

definition callback ::
  "(json \<Rightarrow> string) \<Rightarrow> (discord_file list \<Rightarrow> bool) \<Rightarrow> settings \<Rightarrow> assets_dir
     \<Rightarrow> string \<Rightarrow> string option \<Rightarrow> string \<Rightarrow> data_manager \<times> asset_state
     \<Rightarrow> (py_error + selection_response) \<times> data_manager \<times> asset_state" where
  "callback repr too_large cfg fs category faction selected_key s =
     (case s of (dm, st) \<Rightarrow>
        if selected_key = ''none'' then (Inr NoContentMessage, dm, st)
        else (case get_item dm category selected_key faction of
                (Inl e, dm1) \<Rightarrow> (Inl e, dm1, st)
              | (Inr item_data, dm1) \<Rightarrow>
                  (if \<not> truthy item_data then (Inr (NotFoundMessage selected_key), dm1, st)
                   else (case render_item repr too_large cfg fs item_data selected_key st of
                           (resp, st1) \<Rightarrow> (Inr resp, dm1, st1)))))"

section \<open>The asset operations as the specification words them\<close>



section \<open>Example data\<close>

text \<open>
  A category partitioned by faction, as \<open>tanks.json\<close> is: three tanks of one faction and
  two of another. The third tank is an empty record.
\<close>

definition tanks_data :: json where
  "tanks_data = JObj
     [(''us'', JObj [(''sherman'', JObj [(''display_name'', JStr ''M4A1 Sherman'')]),
                     (''stuart'', JObj [(''display_name'', JStr ''M5A1 Stuart'')]),
                     (''jumbo'', JObj [])]),
      (''german'', JObj [(''tiger'', JObj [(''display_name'', JStr ''Tiger I'')]),
                         (''panther'', JObj [(''display_name'', JStr ''Panther'')])])]"

definition dm_tanks :: data_manager where
  "dm_tanks = \<lparr>data_files = (\<lambda>c. if c = ''tanks'' then Content tanks_data else Missing),
               dm_cache = []\<rparr>"

definition dm_tanks_loaded :: data_manager where
  "dm_tanks_loaded = dm_tanks\<lparr>dm_cache := [(''tanks'', tanks_data)]\<rparr>"






text \<open>Local assets, an assets directory that does not exist, and the state at start-up.\<close>

definition cfg_local :: settings where
  "cfg_local = \<lparr>use_external_assets = False, external_asset_base_url = [], debug = False\<rparr>"

definition st_new :: asset_state where
  "st_new = \<lparr>asset_cache = [], cache_initialized = False\<rparr>"

definition fs_none :: assets_dir where
  "fs_none = \<lparr>dir_exists = False, dir_listing = None, dir_node = (\<lambda>name. NoEntry)\<rparr>"

text \<open>An entry of a category is well formed when it is a record.\<close>

definition is_record :: "json \<Rightarrow> bool" where
  "is_record v = (case v of JObj kvs \<Rightarrow> True | _ \<Rightarrow> False)"

text \<open>
  External assets with a base URL that ends in slashes, and external assets switched on
  with no base URL set.
\<close>

definition cfg_external :: settings where
  "cfg_external = \<lparr>use_external_assets = True,
     external_asset_base_url = ''https://cdn.example.org/assets//'', debug = False\<rparr>"

definition cfg_external_no_url :: settings where
  "cfg_external_no_url = \<lparr>use_external_assets = True, external_asset_base_url = [], debug = False\<rparr>"

text \<open>Twenty-six keys, and a \<open>maps.json\<close> with an empty record under each of them.\<close>

definition many_keys :: "string list" where
  "many_keys = [''map01'', ''map02'', ''map03'', ''map04'', ''map05'', ''map06'', ''map07'', ''map08'', ''map09'', ''map10'', ''map11'', ''map12'', ''map13'', ''map14'', ''map15'', ''map16'', ''map17'', ''map18'', ''map19'', ''map20'', ''map21'', ''map22'', ''map23'', ''map24'', ''map25'', ''map26'']"

definition dm_many :: data_manager where
  "dm_many = \<lparr>data_files = (\<lambda>c. if c = ''maps'' then Content (JObj (map (\<lambda>k. (k, JObj [])) many_keys))
                                else Missing),
              dm_cache = []\<rparr>"

text \<open>
  Two conditions on the asset cache. It is sound when every entry maps a file name to the
  path \<open>ASSETS_DIR / name\<close> and a regular file lies there. It is a cache of images, as
  the specification describes it, when moreover every name has a supported extension and
  is listed directly under the assets directory.
\<close>

definition cache_sound :: "assets_dir \<Rightarrow> (string \<times> path) list \<Rightarrow> bool" where
  "cache_sound fs c = list_all (\<lambda>e. snd e = AssetPath (fst e) \<and> is_file fs (snd e)) c"

definition listed :: "assets_dir \<Rightarrow> string \<Rightarrow> bool" where
  "listed fs name = (case dir_listing fs of Some names \<Rightarrow> name \<in> set names | None \<Rightarrow> False)"

definition cache_of_images :: "assets_dir \<Rightarrow> (string \<times> path) list \<Rightarrow> bool" where
  "cache_of_images fs c =
     list_all (\<lambda>e. is_supported (fst e) \<and> snd e = AssetPath (fst e) \<and> is_file fs (snd e)
                    \<and> listed fs (fst e)) c"

text \<open>An assets directory that holds one image and one text file.\<close>

definition fs_notes :: assets_dir where
  "fs_notes = \<lparr>dir_exists = True,
               dir_listing = Some [''Carentan_Grid.png'', ''notes.txt''],
               dir_node = (\<lambda>name. if name = ''Carentan_Grid.png'' then RegularFile 2048 True
                                   else if name = ''notes.txt'' then RegularFile 10 True
                                   else NoEntry)\<rparr>"

text \<open>
  Data that is not a mapping where one is expected: a faction whose partition is \<open>null\<close>,
  and a file whose top level is a list.
\<close>

definition broken_data :: json where
  "broken_data = JObj
     [(''us'', JNull),
      (''german'', JObj [(''tiger'', JObj [(''display_name'', JStr ''Tiger I'')])])]"

definition dm_broken :: data_manager where
  "dm_broken = \<lparr>data_files = (\<lambda>c. if c = ''tanks'' then Content broken_data
                                  else if c = ''roles'' then Content (JList [JStr ''officer''])
                                  else Missing),
                dm_cache = []\<rparr>"








section \<open>Properties of the data manager\<close>



lemma get_items_none: "load_data dm c = (d, dm') \<Longrightarrow> get_items dm c None = (Inr d, dm')"
  by (simp add: get_items_def)


lemma load_data_unknown:
  "dict_get (dm_cache dm) c = None \<Longrightarrow> data_files dm c = Missing \<Longrightarrow> load_data dm c = (JObj [], dm)"
  by (simp add: load_data_def)

lemma get_item_lookup:
  assumes "get_items dm c f = (Inr (JObj kvs), dm')"
  shows "get_item dm c k f = (Inr (case dict_get kvs k of Some v \<Rightarrow> v | None \<Rightarrow> JObj []), dm')"
  using assms by (simp add: get_item_def split: option.splits)

lemma dict_has_get: "dict_has kvs k \<longleftrightarrow> dict_get kvs k \<noteq> None"
  by (simp add: dict_has_def dict_get_def map_of_eq_None_iff)

lemma load_tanks: "load_data dm_tanks ''tanks'' = (tanks_data, dm_tanks_loaded)"
  by (simp add: load_data_def dm_tanks_def dm_tanks_loaded_def dict_get_def)

lemma get_item_not_record:
  assumes "get_items dm c f = (Inr v, dm')" "\<not> is_record v"
  shows "get_item dm c k f = (Inl AttributeError, dm')"
  using assms by (cases v) (simp_all add: get_item_def is_record_def)

lemma get_item_raises:
  assumes "get_items dm c f = (Inl e, dm')"
  shows "get_item dm c k f = (Inl e, dm')"
  using assms by (simp add: get_item_def)

lemma load_broken_tanks:
  "load_data dm_broken ''tanks'' = (broken_data, dm_broken\<lparr>dm_cache := [(''tanks'', broken_data)]\<rparr>)"
  by (simp add: load_data_def dm_broken_def dict_get_def)

lemma load_broken_roles:
  "load_data dm_broken ''roles'' =
     (JList [JStr ''officer''], dm_broken\<lparr>dm_cache := [(''roles'', JList [JStr ''officer''])]\<rparr>)"
  by (simp add: load_data_def dm_broken_def dict_get_def)

lemma broken_us_items:
  "get_items dm_broken ''tanks'' (Some ''us'') =
     (Inr JNull, dm_broken\<lparr>dm_cache := [(''tanks'', broken_data)]\<rparr>)"
  by (simp add: get_items_def load_broken_tanks pick_faction_def broken_data_def dict_get_def)

lemma broken_roles_items:
  "get_items dm_broken ''roles'' (Some ''officer'') =
     (Inl TypeError, dm_broken\<lparr>dm_cache := [(''roles'', JList [JStr ''officer''])]\<rparr>)"
  by (simp add: get_items_def load_broken_roles pick_faction_def)

text \<open>
  C8, as the code has it. Whenever \<open>get_items\<close> returns a mapping, \<open>get_item\<close> is a
  lookup of the key in it: it returns the item stored under a key that is a member of the
  mapping, and the empty record \<open>{}\<close>, which stands for "not found", under any other
  key. An unknown category has the empty mapping, and an unknown faction leaves the whole
  mapping of the category, so the lookup is the same there. When what \<open>get_items\<close>
  returns is not a mapping, \<open>get_item\<close> raises \<open>AttributeError\<close>, and when \<open>get_items\<close>
  raises, \<open>get_item\<close> raises the same error.
\<close>

theorem get_item_pure_lookup:
  "(get_items dm c f = (Inr (JObj kvs), dm') \<longrightarrow>
      (dict_has kvs k \<longrightarrow>
         (\<exists>v. dict_get kvs k = Some v \<and> get_item dm c k f = (Inr v, dm'))) \<and>
      (\<not> dict_has kvs k \<longrightarrow> get_item dm c k f = (Inr (JObj []), dm')))
   \<and> (dict_get (dm_cache dm) c = None \<and> data_files dm c = Missing \<longrightarrow>
        get_items dm c f = (Inr (JObj []), dm) \<and> get_item dm c k f = (Inr (JObj []), dm))
   \<and> (load_data dm c = (JObj kvs, dm') \<and> \<not> dict_has kvs fa \<longrightarrow>
        get_items dm c (Some fa) = (Inr (JObj kvs), dm'))
   \<and> (get_items dm c f = (Inr v, dm') \<and> \<not> is_record v \<longrightarrow>
        get_item dm c k f = (Inl AttributeError, dm'))
   \<and> (get_items dm c f = (Inl e, dm') \<longrightarrow> get_item dm c k f = (Inl e, dm'))"
proof (intro conjI impI)
  assume a: "get_items dm c f = (Inr (JObj kvs), dm')"
  { assume "dict_has kvs k"
    then obtain v where v: "dict_get kvs k = Some v" by (auto simp: dict_has_get)
    with get_item_lookup[OF a, of k]
    show "\<exists>v. dict_get kvs k = Some v \<and> get_item dm c k f = (Inr v, dm')" by simp }
  { assume "\<not> dict_has kvs k"
    then have "dict_get kvs k = None" by (simp add: dict_has_get)
    with get_item_lookup[OF a, of k]
    show "get_item dm c k f = (Inr (JObj []), dm')" by simp }
next
  assume u: "dict_get (dm_cache dm) c = None \<and> data_files dm c = Missing"
  then have l: "load_data dm c = (JObj [], dm)" by (simp add: load_data_unknown)
  show g: "get_items dm c f = (Inr (JObj []), dm)"
    using l by (cases f) (auto simp: get_items_def pick_faction_def dict_get_def)
  show "get_item dm c k f = (Inr (JObj []), dm)"
    using get_item_lookup[OF g, of k] by (simp add: dict_get_def)
next
  assume "load_data dm c = (JObj kvs, dm') \<and> \<not> dict_has kvs fa"
  then show "get_items dm c (Some fa) = (Inr (JObj kvs), dm')"
    by (auto simp: get_items_def pick_faction_def dict_has_get)
next
  assume "get_items dm c f = (Inr v, dm') \<and> \<not> is_record v"
  then show "get_item dm c k f = (Inl AttributeError, dm')"
    using get_item_not_record by blast
next
  assume "get_items dm c f = (Inl e, dm')"
  then show "get_item dm c k f = (Inl e, dm')" by (rule get_item_raises)
qed

text \<open>
  The theorem at the tanks: a key of the German partition is found there and not in
  the American one, and nothing is found in a category without a file; and at the data
  that is not a mapping.
\<close>

theorem get_item_pure_lookup_witness:
  "get_items dm_tanks ''tanks'' (Some ''german'') =
     (Inr (JObj [(''tiger'', JObj [(''display_name'', JStr ''Tiger I'')]),
                 (''panther'', JObj [(''display_name'', JStr ''Panther'')])]), dm_tanks_loaded)
   \<and> get_item dm_tanks ''tanks'' ''tiger'' (Some ''german'') =
       (Inr (JObj [(''display_name'', JStr ''Tiger I'')]), dm_tanks_loaded)
   \<and> get_item dm_tanks ''tanks'' ''tiger'' (Some ''us'') = (Inr (JObj []), dm_tanks_loaded)
   \<and> get_item dm_tanks ''weapons'' ''tiger'' None = (Inr (JObj []), dm_tanks)
   \<and> get_item dm_broken ''tanks'' ''sherman'' (Some ''us'') =
       (Inl AttributeError, dm_broken\<lparr>dm_cache := [(''tanks'', broken_data)]\<rparr>)
   \<and> get_item dm_broken ''roles'' ''rifleman'' (Some ''officer'') =
       (Inl TypeError, dm_broken\<lparr>dm_cache := [(''roles'', JList [JStr ''officer''])]\<rparr>)"
proof -
  let ?g = "[(''tiger'', JObj [(''display_name'', JStr ''Tiger I'')]),
             (''panther'', JObj [(''display_name'', JStr ''Panther'')])]"
  let ?u = "[(''sherman'', JObj [(''display_name'', JStr ''M4A1 Sherman'')]),
             (''stuart'', JObj [(''display_name'', JStr ''M5A1 Stuart'')]),
             (''jumbo'', JObj [])]"
  have g: "get_items dm_tanks ''tanks'' (Some ''german'') = (Inr (JObj ?g), dm_tanks_loaded)"
    by (simp add: get_items_def load_tanks pick_faction_def tanks_data_def dict_get_def)
  have u: "get_items dm_tanks ''tanks'' (Some ''us'') = (Inr (JObj ?u), dm_tanks_loaded)"
    by (simp add: get_items_def load_tanks pick_faction_def tanks_data_def dict_get_def)
  have w: "dict_get (dm_cache dm_tanks) ''weapons'' = None \<and> data_files dm_tanks ''weapons'' = Missing"
    by (simp add: dm_tanks_def dict_get_def)
  have n: "\<not> is_record JNull" by (simp add: is_record_def)
  have a: "get_item dm_tanks ''tanks'' ''tiger'' (Some ''german'') =
       (Inr (JObj [(''display_name'', JStr ''Tiger I'')]), dm_tanks_loaded)
     \<and> get_item dm_tanks ''tanks'' ''tiger'' (Some ''us'') = (Inr (JObj []), dm_tanks_loaded)
     \<and> get_item dm_tanks ''weapons'' ''tiger'' None = (Inr (JObj []), dm_tanks)"
    using g u w
      get_item_pure_lookup[of dm_tanks "''tanks''" "Some ''german''" ?g dm_tanks_loaded "''tiger''"]
      get_item_pure_lookup[of dm_tanks "''tanks''" "Some ''us''" ?u dm_tanks_loaded "''tiger''"]
      get_item_pure_lookup[of dm_tanks "''weapons''" None "[]" dm_tanks "''tiger''"]
    by (simp add: dict_has_def dict_get_def)
  have b: "get_item dm_broken ''tanks'' ''sherman'' (Some ''us'') =
       (Inl AttributeError, dm_broken\<lparr>dm_cache := [(''tanks'', broken_data)]\<rparr>)"
    using broken_us_items n
      get_item_pure_lookup[of dm_broken "''tanks''" "Some ''us''" "[]"
        "dm_broken\<lparr>dm_cache := [(''tanks'', broken_data)]\<rparr>" "''sherman''" "''x''" JNull TypeError]
    by blast
  have c: "get_item dm_broken ''roles'' ''rifleman'' (Some ''officer'') =
       (Inl TypeError, dm_broken\<lparr>dm_cache := [(''roles'', JList [JStr ''officer''])]\<rparr>)"
    using broken_roles_items
      get_item_pure_lookup[of dm_broken "''roles''" "Some ''officer''" "[]"
        "dm_broken\<lparr>dm_cache := [(''roles'', JList [JStr ''officer''])]\<rparr>" "''rifleman''" "''x''" JNull
        TypeError]
    by blast
  show ?thesis using g a b c by simp
qed

text \<open>
  C8 as stated fails: for a faction whose partition is \<open>null\<close>, and for a file whose top
  level is a list, \<open>get_item\<close> raises \<open>AttributeError\<close> instead of returning \<open>{}\<close>.
\<close>

theorem get_item_not_a_mapping_counterexample:
  "fst (get_items dm_broken ''tanks'' (Some ''us'')) = Inr JNull
   \<and> fst (get_item dm_broken ''tanks'' ''sherman'' (Some ''us'')) = Inl AttributeError
   \<and> fst (get_item dm_broken ''tanks'' ''sherman'' (Some ''us'')) \<noteq> Inr (JObj [])
   \<and> fst (get_item dm_broken ''roles'' ''rifleman'' None) = Inl AttributeError"
proof -
  have r: "get_items dm_broken ''roles'' None =
      (Inr (JList [JStr ''officer'']), dm_broken\<lparr>dm_cache := [(''roles'', JList [JStr ''officer''])]\<rparr>)"
    by (simp add: get_items_none load_broken_roles)
  have n: "\<not> is_record JNull" "\<not> is_record (JList [JStr ''officer''])" by (simp_all add: is_record_def)
  show ?thesis
    using get_item_not_record[OF broken_us_items n(1), of "''sherman''"]
      get_item_not_record[OF r n(2), of "''rifleman''"]
    by (simp add: broken_us_items)
qed








lemma dropdown_fetch:
  assumes "load_data dm c = (JObj kvs, dm')" "kvs \<noteq> []"
  shows "BaseSelectorDropdown dm c None None = (Inr (take 25 (map make_option kvs)), dm')"
  using assms by (simp add: BaseSelectorDropdown_def get_items_none)














text \<open>
  C10. \<open>get_item\<close> returns \<open>{}\<close> when the key is absent and when the key maps to an
  empty record, and its one caller, the callback of the item menu, answers both with the
  message that the item was not found.
\<close>

theorem get_item_empty_is_not_found:
  "get_items dm c f = (Inr (JObj kvs), dm') \<longrightarrow>
     (dict_get kvs k = None \<longrightarrow> get_item dm c k f = (Inr (JObj []), dm')) \<and>
     (dict_get kvs k = Some (JObj []) \<longrightarrow> get_item dm c k f = (Inr (JObj []), dm')) \<and>
     ((dict_get kvs k = None \<or> dict_get kvs k = Some (JObj [])) \<and> k \<noteq> ''none'' \<longrightarrow>
        callback repr too_large cfg fs c f k (dm, st) = (Inr (NotFoundMessage k), dm', st))"
  by (auto simp: get_item_lookup callback_def)

text \<open>
  The theorem at the tanks: the empty record \<open>jumbo\<close> and the absent key \<open>tiger\<close> of the
  American partition give the same result and the same answer.
\<close>

theorem get_item_empty_is_not_found_witness:
  "get_item dm_tanks ''tanks'' ''jumbo'' (Some ''us'') = (Inr (JObj []), dm_tanks_loaded)
   \<and> get_item dm_tanks ''tanks'' ''tiger'' (Some ''us'') = (Inr (JObj []), dm_tanks_loaded)
   \<and> callback (\<lambda>v. []) (\<lambda>files. False) cfg_local fs_none ''tanks'' (Some ''us'') ''jumbo'' (dm_tanks, st_new)
       = (Inr (NotFoundMessage ''jumbo''), dm_tanks_loaded, st_new)
   \<and> callback (\<lambda>v. []) (\<lambda>files. False) cfg_local fs_none ''tanks'' (Some ''us'') ''tiger'' (dm_tanks, st_new)
       = (Inr (NotFoundMessage ''tiger''), dm_tanks_loaded, st_new)"
proof -
  let ?u = "[(''sherman'', JObj [(''display_name'', JStr ''M4A1 Sherman'')]),
             (''stuart'', JObj [(''display_name'', JStr ''M5A1 Stuart'')]),
             (''jumbo'', JObj [])]"
  have u: "get_items dm_tanks ''tanks'' (Some ''us'') = (Inr (JObj ?u), dm_tanks_loaded)"
    by (simp add: get_items_def load_tanks pick_faction_def tanks_data_def dict_get_def)
  show ?thesis
    using u
      get_item_empty_is_not_found[of dm_tanks "''tanks''" "Some ''us''" ?u dm_tanks_loaded "''jumbo''"
        "\<lambda>v. []" "\<lambda>files. False" cfg_local fs_none st_new]
      get_item_empty_is_not_found[of dm_tanks "''tanks''" "Some ''us''" ?u dm_tanks_loaded "''tiger''"
        "\<lambda>v. []" "\<lambda>files. False" cfg_local fs_none st_new]
    by (simp add: dict_get_def)
qed

section \<open>Properties of the asset URL and of the thumbnail reference\<close>

lemma rstrip_chars_no_trailing:
  "rstrip_chars s [c] = [] \<or> last (rstrip_chars s [c]) \<noteq> c"
proof (cases "dropWhile (\<lambda>x. x \<in> set [c]) (rev s) = []")
  case True
  then show ?thesis by (simp add: rstrip_chars_def)
next
  case False
  from hd_dropWhile[OF False] have "hd (dropWhile (\<lambda>x. x \<in> set [c]) (rev s)) \<noteq> c" by simp
  with False show ?thesis by (simp add: rstrip_chars_def last_rev)
qed

lemma rstrip_chars_decomp:
  "s = rstrip_chars s [c] @ replicate (length s - length (rstrip_chars s [c])) c"
proof -
  let ?P = "\<lambda>x. x \<in> set [c]"
  let ?t = "takeWhile ?P (rev s)"
  have "set ?t \<subseteq> {c}" by (auto dest: set_takeWhileD)
  then have t: "?t = replicate (length ?t) c"
    by (metis (no_types, lifting) replicate_eqI singletonD subsetD)
  have s: "s = rev (dropWhile ?P (rev s)) @ rev ?t"
    by (metis rev_append rev_rev_ident takeWhile_dropWhile_id)
  have l: "length s - length (rstrip_chars s [c]) = length ?t"
    using arg_cong[OF s, of length] by (simp add: rstrip_chars_def)
  show ?thesis
    using s t l by (metis rev_replicate rstrip_chars_def)
qed

text \<open>
  C5, as the code has it. With external assets switched on and a base URL that is not
  empty, \<open>get_asset_url\<close> returns the base URL without its trailing slashes, a slash and
  the file name; the stripped base does not end in a slash and differs from the base only
  by the slashes removed. With local assets, and also with external assets switched on
  but no base URL, it returns \<open>attachment://\<close> followed by the file name. The function is
  total: it returns a string in every case.
\<close>

theorem get_asset_url_policy:
  "(use_external_assets cfg \<and> external_asset_base_url cfg \<noteq> [] \<longrightarrow>
      get_asset_url cfg filename =
        rstrip_chars (external_asset_base_url cfg) ''/'' @ ''/'' @ filename
      \<and> (rstrip_chars (external_asset_base_url cfg) ''/'' = []
           \<or> last (rstrip_chars (external_asset_base_url cfg) ''/'') \<noteq> CHR ''/'')
      \<and> external_asset_base_url cfg =
          rstrip_chars (external_asset_base_url cfg) ''/'' @
          replicate (length (external_asset_base_url cfg)
                       - length (rstrip_chars (external_asset_base_url cfg) ''/'')) CHR ''/'')
   \<and> (\<not> use_external_assets cfg \<longrightarrow> get_asset_url cfg filename = ''attachment://'' @ filename)
   \<and> (use_external_assets cfg \<and> external_asset_base_url cfg = [] \<longrightarrow>
        get_asset_url cfg filename = ''attachment://'' @ filename)"
  using rstrip_chars_no_trailing[of "external_asset_base_url cfg" "CHR ''/''"]
    rstrip_chars_decomp[of "external_asset_base_url cfg" "CHR ''/''"]
  by (auto simp: get_asset_url_def)

text \<open>
  The theorem at the three kinds of settings.
\<close>

theorem get_asset_url_policy_witness:
  "get_asset_url cfg_external ''Carentan_Grid.png'' = ''https://cdn.example.org/assets/Carentan_Grid.png''
   \<and> get_asset_url cfg_local ''Carentan_Grid.png'' = ''attachment://Carentan_Grid.png''
   \<and> get_asset_url cfg_external_no_url ''Carentan_Grid.png'' = ''attachment://Carentan_Grid.png''"
  using get_asset_url_policy[of cfg_external "''Carentan_Grid.png''"]
    get_asset_url_policy[of cfg_local "''Carentan_Grid.png''"]
    get_asset_url_policy[of cfg_external_no_url "''Carentan_Grid.png''"]
  by (simp add: cfg_external_def cfg_local_def cfg_external_no_url_def rstrip_chars_def)

text \<open>
  C5 as stated fails: with external assets switched on and an empty base URL the result
  is the attachment placeholder, not the base URL followed by a slash and the file name.
\<close>

theorem get_asset_url_external_counterexample:
  "use_external_assets cfg_external_no_url
   \<and> get_asset_url cfg_external_no_url ''Carentan_Grid.png'' = ''attachment://Carentan_Grid.png''
   \<and> get_asset_url cfg_external_no_url ''Carentan_Grid.png'' \<noteq>
       rstrip_chars (external_asset_base_url cfg_external_no_url) ''/'' @ ''/'' @ ''Carentan_Grid.png''"
  by (simp add: get_asset_url_def cfg_external_no_url_def rstrip_chars_def)

declare replace_ne.simps [simp del]

lemma replace_ne_Nil: "replace_ne old new [] = []"
  by (simp add: replace_ne.simps)

lemma replace_ne_match:
  "old \<noteq> [] \<Longrightarrow> startswith (c # cs) old \<Longrightarrow>
   replace_ne old new (c # cs) = new @ replace_ne old new (drop (length old) (c # cs))"
  by (subst replace_ne.simps) simp

lemma replace_ne_skip:
  "\<not> startswith (c # cs) old \<Longrightarrow> replace_ne old new (c # cs) = c # replace_ne old new cs"
  by (subst replace_ne.simps) simp

lemma replace_ne_length: "length (replace_ne old [] s) \<le> length s"
proof (induction "length s" arbitrary: s rule: less_induct)
  case less
  show ?case
  proof (cases s)
    case Nil
    then show ?thesis by (simp add: replace_ne_Nil)
  next
    case (Cons c cs)
    show ?thesis
    proof (cases "old \<noteq> [] \<and> startswith s old")
      case True
      then have "replace_ne old [] s = replace_ne old [] (drop (length old) s)"
        using Cons by (simp add: replace_ne_match)
      moreover have "length (drop (length old) s) < length s" using True Cons by simp
      ultimately show ?thesis using less[of "drop (length old) s"] by simp
    next
      case False
      then have "replace_ne old [] s = c # replace_ne old [] cs"
        using Cons by (subst replace_ne.simps) auto
      then show ?thesis using less[of cs] Cons by simp
    qed
  qed
qed

lemma replace_ne_shorter:
  assumes "old \<noteq> []" "startswith s old"
  shows "length (replace_ne old [] s) < length s"
proof -
  from assms have ne: "s \<noteq> []" by (auto simp: startswith_def)
  then obtain c cs where s: "s = c # cs" by (cases s) auto
  have "replace_ne old [] s = replace_ne old [] (drop (length old) s)"
    using assms s by (simp add: replace_ne_match)
  moreover have "length (drop (length old) s) < length s" using assms ne by simp
  ultimately show ?thesis
    using replace_ne_length[of old "drop (length old) s"] by simp
qed

lemma replace_ne_absent:
  "\<not> str_contains s old \<Longrightarrow> replace_ne old new s = s"
  by (induction s) (auto simp: replace_ne_Nil replace_ne_skip)

lemma startswith_contains: "startswith s p \<Longrightarrow> str_contains s p"
  by (cases s) (auto simp: startswith_def)

lemma strip_attachment_unprefixed:
  "\<not> startswith s ''attachment://'' \<Longrightarrow> strip_attachment s = s"
  by (simp add: strip_attachment_def)

lemma strip_attachment_changes:
  assumes "startswith s ''attachment://''"
  shows "strip_attachment s \<noteq> s"
proof -
  have "length (strip_attachment s) < length s"
    using replace_ne_shorter[of "''attachment://''" s] assms
    by (simp add: strip_attachment_def py_replace_def)
  then show ?thesis by auto
qed

lemma strip_attachment_once:
  assumes "\<not> str_contains t ''attachment://''"
  shows "strip_attachment (''attachment://'' @ t) = t"
proof -
  have sw: "startswith (''attachment://'' @ t) ''attachment://''"
    by (simp add: startswith_def)
  have "replace_ne ''attachment://'' [] (''attachment://'' @ t) = replace_ne ''attachment://'' [] t"
    using replace_ne_match[of "''attachment://''" "CHR ''a''" "''ttachment://'' @ t" "[]"] sw
    by simp
  then show ?thesis
    using sw assms by (simp add: strip_attachment_def py_replace_def replace_ne_absent)
qed

text \<open>
  C9, as the code has it. Removing the marker a second time changes nothing exactly when
  the result of the first removal does not start with the marker again. That is so for
  every reference that does not start with the marker (it is left as it is) and for every
  reference that carries the marker once, in front.
\<close>

theorem strip_attachment_idempotent_when:
  "(strip_attachment (strip_attachment s) = strip_attachment s
      \<longleftrightarrow> \<not> startswith (strip_attachment s) ''attachment://'')
   \<and> (\<not> startswith s ''attachment://'' \<longrightarrow>
        strip_attachment s = s \<and> strip_attachment (strip_attachment s) = strip_attachment s)
   \<and> (\<not> str_contains t ''attachment://'' \<longrightarrow>
        strip_attachment (''attachment://'' @ t) = t
        \<and> strip_attachment (strip_attachment (''attachment://'' @ t)) =
            strip_attachment (''attachment://'' @ t))"
proof (intro conjI impI)
  show "strip_attachment (strip_attachment s) = strip_attachment s
      \<longleftrightarrow> \<not> startswith (strip_attachment s) ''attachment://''"
    using strip_attachment_changes[of "strip_attachment s"]
      strip_attachment_unprefixed[of "strip_attachment s"] by blast
next
  assume a: "\<not> startswith s ''attachment://''"
  then show "strip_attachment s = s" by (rule strip_attachment_unprefixed)
  with a show "strip_attachment (strip_attachment s) = strip_attachment s" by simp
next
  assume a: "\<not> str_contains t ''attachment://''"
  then show o: "strip_attachment (''attachment://'' @ t) = t" by (rule strip_attachment_once)
  from a have "\<not> startswith t ''attachment://''" using startswith_contains by blast
  then show "strip_attachment (strip_attachment (''attachment://'' @ t)) =
            strip_attachment (''attachment://'' @ t)"
    using o by (simp add: strip_attachment_unprefixed)
qed

lemma sherman_no_marker: "\<not> str_contains ''M4A1_Sherman.png'' ''attachment://''"
  by (simp add: startswith_def)

text \<open>
  The theorem at a thumbnail name with and without the marker.
\<close>

theorem strip_attachment_idempotent_when_witness:
  "strip_attachment ''attachment://M4A1_Sherman.png'' = ''M4A1_Sherman.png''
   \<and> strip_attachment (strip_attachment ''attachment://M4A1_Sherman.png'') =
       strip_attachment ''attachment://M4A1_Sherman.png''
   \<and> strip_attachment (strip_attachment ''M4A1_Sherman.png'') = strip_attachment ''M4A1_Sherman.png''"
  using sherman_no_marker startswith_contains[of "''M4A1_Sherman.png''" "''attachment://''"]
    strip_attachment_idempotent_when[of "''M4A1_Sherman.png''" "''M4A1_Sherman.png''"]
  by auto

text \<open>
  C9 as stated fails: \<open>replace\<close> removes every occurrence of the marker, and the pieces
  left over can join into a new one, which a second pass removes.
\<close>

theorem strip_attachment_idempotent_counterexample:
  "strip_attachment ''attachment://attachattachment://ment://x.png'' = ''attachment://x.png''
   \<and> strip_attachment (strip_attachment ''attachment://attachattachment://ment://x.png'') = ''x.png''
   \<and> strip_attachment (strip_attachment ''attachment://attachattachment://ment://x.png'') \<noteq>
       strip_attachment ''attachment://attachattachment://ment://x.png''"
  by (simp add: strip_attachment_def py_replace_def startswith_def replace_ne_match
      replace_ne_skip replace_ne_Nil)

section \<open>Properties of rendering and of the menus\<close>

lemma embed_colour_string:
  "dict_get item_data ''color'' = Some (JStr s) \<Longrightarrow>
   embed_colour item_data = Inr (case int16 s of Some n \<Rightarrow> n | None \<Rightarrow> default_color)"
  by (simp add: embed_colour_def split: option.splits)

text \<open>
  C2 at a failing input: for an item whose \<open>color\<close> is a JSON number, \<open>int(..., 16)\<close>
  raises \<open>TypeError\<close>, which \<open>except ValueError\<close> does not catch, so \<open>create_embed\<close>
  raises instead of falling back to the default colour.
\<close>

theorem create_embed_color_number_raises:
  "create_embed repr cfg [(''title'', JStr ''M4A1 Sherman''), (''color'', JInt 5793266)] key inc
     = Inl TypeError"
  by (simp add: create_embed_def embed_colour_def dict_get_def)

lemma map_menu_option_empty:
  "map_menu_option k (JObj []) =
     Inr \<lparr>opt_label = JStr (get_display_name k), opt_value = k,
          opt_description = Some (JStr default_description), opt_emoji = Some WorldMap\<rparr>"
  by (simp add: map_menu_option_def map_description_def dict_get_def default_description_def)

lemma map_options_length: "map_menu_options kvs = Inr opts \<Longrightarrow> length opts = length kvs"
  by (induction kvs arbitrary: opts rule: map_menu_options.induct) (auto split: sum.splits)

lemma map_options_empty_records:
  "map_menu_options (map (\<lambda>k. (k, JObj [])) ks) =
     Inr (map (\<lambda>k. \<lparr>opt_label = JStr (get_display_name k), opt_value = k,
          opt_description = Some (JStr default_description), opt_emoji = Some WorldMap\<rparr>) ks)"
  by (induction ks) (auto simp: map_menu_option_empty)

lemma length_many: "length many_keys = 26"
  by (simp add: many_keys_def)

lemma many_ne: "many_keys \<noteq> []"
  by (simp add: many_keys_def)

lemma load_many:
  "load_data dm_many ''maps'' =
     (JObj (map (\<lambda>k. (k, JObj [])) many_keys),
      dm_many\<lparr>dm_cache := [(''maps'', JObj (map (\<lambda>k. (k, JObj [])) many_keys))]\<rparr>)"
  by (simp add: load_data_def dm_many_def dict_get_def)

text \<open>
  C6 at a failing input: with twenty-six keys the faction menu and the map menu are built
  with twenty-six options, while the item menu over the same data is cut to twenty-five.
\<close>

theorem option_cap_missing:
  "length (FactionSelectorDropdown ''tanks'' many_keys) = 26
   \<and> map_sum id length (fst (PersistentMapDropdown dm_many)) = Inr 26
   \<and> map_sum id length (fst (BaseSelectorDropdown dm_many ''maps'' None None)) = Inr 25"
proof -
  have a: "length (FactionSelectorDropdown ''tanks'' many_keys) = 26"
    by (simp add: FactionSelectorDropdown_def length_many)
  have b: "map_sum id length (fst (PersistentMapDropdown dm_many)) = Inr 26"
    by (simp add: PersistentMapDropdown_def load_many many_ne map_options_empty_records length_many)
  have c: "map_sum id length (fst (BaseSelectorDropdown dm_many ''maps'' None None)) = Inr 25"
    using dropdown_fetch[OF load_many] many_ne by (simp add: length_many)
  show ?thesis using a b c by simp
qed

section \<open>Properties of the asset cache\<close>

lemma list_all_dict_set:
  "list_all P c \<Longrightarrow> P (k, v) \<Longrightarrow> list_all P (dict_set c k v)"
  by (induction c) auto

lemma list_all_cache_entries:
  assumes "list_all P c"
    and "\<And>n. n \<in> set names \<Longrightarrow> is_file fs (AssetPath n) \<Longrightarrow> is_supported n \<Longrightarrow> P (n, AssetPath n)"
  shows "list_all P (foldl (cache_entry fs) c names)"
  using assms
proof (induction names arbitrary: c)
  case Nil
  then show ?case by simp
next
  case (Cons n names)
  have "list_all P (cache_entry fs c n)"
    using Cons.prems by (simp add: cache_entry_def list_all_dict_set)
  then show ?case using Cons by simp
qed

lemma initialize_sound:
  "cache_sound fs (asset_cache st) \<Longrightarrow> cache_sound fs (asset_cache (initialize_asset_cache fs st))"
  unfolding cache_sound_def initialize_asset_cache_def
  by (auto split: option.splits intro!: list_all_cache_entries)

lemma initialize_images:
  assumes "cache_of_images fs (asset_cache st)"
  shows "cache_of_images fs (asset_cache (initialize_asset_cache fs st))"
proof (cases "dir_listing fs")
  case None
  then show ?thesis using assms by (simp add: initialize_asset_cache_def cache_of_images_def)
next
  case (Some names)
  let ?P = "\<lambda>e. is_supported (fst e) \<and> snd e = AssetPath (fst e) \<and> is_file fs (snd e)
                    \<and> listed fs (fst e)"
  have "list_all ?P (foldl (cache_entry fs) (asset_cache st) names)"
  proof (rule list_all_cache_entries)
    show "list_all ?P (asset_cache st)" using assms by (simp add: cache_of_images_def)
  next
    fix n assume "n \<in> set names" "is_file fs (AssetPath n)" "is_supported n"
    then show "?P (n, AssetPath n)" using Some by (simp add: listed_def)
  qed
  then show ?thesis
    using assms Some by (simp add: initialize_asset_cache_def cache_of_images_def)
qed

lemma get_asset_file_sound:
  "cache_sound fs (asset_cache st) \<Longrightarrow>
   cache_sound fs (asset_cache (snd (get_asset_file cfg fs st name)))"
  using initialize_sound[of fs st]
  by (auto simp: get_asset_file_def Let_def cache_sound_def list_all_dict_set split: option.splits)

lemma refresh_sound: "cache_sound fs (asset_cache (refresh_asset_cache fs st))"
  unfolding refresh_asset_cache_def by (rule initialize_sound) (simp add: cache_sound_def)

lemma refresh_images: "cache_of_images fs (asset_cache (refresh_asset_cache fs st))"
  unfolding refresh_asset_cache_def by (rule initialize_images) (simp add: cache_of_images_def)

text \<open>
  C4, as the code has it. Every operation keeps the cache sound: the initial build, the
  lookup with its fallback probe, and the refresh. The build and the refresh moreover
  keep, respectively establish, a cache of images; the fallback probe does not, since it
  caches any regular file found at \<open>ASSETS_DIR / filename\<close>.
\<close>

theorem asset_cache_invariant:
  "(cache_sound fs (asset_cache st) \<longrightarrow>
      cache_sound fs (asset_cache (initialize_asset_cache fs st))
      \<and> cache_sound fs (asset_cache (snd (get_asset_file cfg fs st name))))
   \<and> cache_sound fs (asset_cache (refresh_asset_cache fs st))
   \<and> (cache_of_images fs (asset_cache st) \<longrightarrow>
        cache_of_images fs (asset_cache (initialize_asset_cache fs st)))
   \<and> cache_of_images fs (asset_cache (refresh_asset_cache fs st))"
  by (simp add: initialize_sound get_asset_file_sound refresh_sound initialize_images refresh_images)

lemma grid_png_supported: "is_supported ''Carentan_Grid.png''"
  by code_simp

lemma notes_txt_unsupported: "\<not> is_supported ''notes.txt''"
  by code_simp

lemma init_notes:
  "initialize_asset_cache fs_notes st_new =
     \<lparr>asset_cache = [(''Carentan_Grid.png'', AssetPath ''Carentan_Grid.png'')], cache_initialized = True\<rparr>"
  by (simp add: initialize_asset_cache_def fs_notes_def st_new_def cache_entry_def grid_png_supported notes_txt_unsupported)

lemma fetch_notes:
  "get_asset_file cfg_local fs_notes st_new ''notes.txt'' =
     (Some \<lparr>file_name = ''notes.txt'', file_size = 10\<rparr>,
      \<lparr>asset_cache = [(''Carentan_Grid.png'', AssetPath ''Carentan_Grid.png''),
                      (''notes.txt'', AssetPath ''notes.txt'')], cache_initialized = True\<rparr>)"
  by (simp add: get_asset_file_def init_notes cfg_local_def dict_get_def) (simp add: fs_notes_def)

text \<open>
  The theorem at the directory with one image and one text file.
\<close>

theorem asset_cache_invariant_witness:
  "cache_sound fs_notes (asset_cache st_new)
   \<and> cache_of_images fs_notes (asset_cache st_new)
   \<and> cache_sound fs_notes (asset_cache (initialize_asset_cache fs_notes st_new))
   \<and> cache_of_images fs_notes (asset_cache (initialize_asset_cache fs_notes st_new))
   \<and> cache_sound fs_notes (asset_cache (snd (get_asset_file cfg_local fs_notes st_new ''notes.txt'')))
   \<and> cache_of_images fs_notes (asset_cache (refresh_asset_cache fs_notes
        (snd (get_asset_file cfg_local fs_notes st_new ''notes.txt''))))"
proof -
  have a: "cache_sound fs_notes (asset_cache st_new)" by (simp add: cache_sound_def st_new_def)
  have b: "cache_of_images fs_notes (asset_cache st_new)"
    by (simp add: cache_of_images_def st_new_def)
  show ?thesis
    using a b asset_cache_invariant[of fs_notes st_new cfg_local "''notes.txt''"]
      asset_cache_invariant[of fs_notes "snd (get_asset_file cfg_local fs_notes st_new ''notes.txt'')"
        cfg_local "''notes.txt''"]
    by simp
qed

text \<open>
  C4 as stated fails: asked for \<open>notes.txt\<close>, the fallback probe of \<open>get_asset_file\<close>
  finds the file and caches it, though its extension is not a supported one.
\<close>

theorem asset_cache_images_counterexample:
  "cache_of_images fs_notes (asset_cache st_new)
   \<and> asset_cache (snd (get_asset_file cfg_local fs_notes st_new ''notes.txt'')) =
       [(''Carentan_Grid.png'', AssetPath ''Carentan_Grid.png''), (''notes.txt'', AssetPath ''notes.txt'')]
   \<and> \<not> is_supported ''notes.txt''
   \<and> \<not> cache_of_images fs_notes (asset_cache (snd (get_asset_file cfg_local fs_notes st_new ''notes.txt'')))"
proof -
  have a: "cache_of_images fs_notes (asset_cache st_new)"
    by (simp add: cache_of_images_def st_new_def)
  have b: "asset_cache (snd (get_asset_file cfg_local fs_notes st_new ''notes.txt'')) =
       [(''Carentan_Grid.png'', AssetPath ''Carentan_Grid.png''), (''notes.txt'', AssetPath ''notes.txt'')]"
    by (simp add: fetch_notes)
  have c: "\<not> cache_of_images fs_notes
       [(''Carentan_Grid.png'', AssetPath ''Carentan_Grid.png''), (''notes.txt'', AssetPath ''notes.txt'')]"
    by (simp add: cache_of_images_def notes_txt_unsupported)
  show ?thesis using a b c notes_txt_unsupported by simp
qed

section \<open>Properties of the attachments\<close>



























end
